theory Spec2Isabelle
  imports Main
begin

section \<open>Data model\<close>

text \<open>
  The chat part of \<^verbatim>\<open>main.py\<close>: the websocket handler \<^verbatim>\<open>websocket_endpoint\<close> and the
  two read endpoints \<^verbatim>\<open>chat_users\<close> and \<^verbatim>\<open>get_chat\<close>. Python exceptions are values of
  \<open>exn\<close>; a function that may raise returns \<open>exn + 'a\<close> (\<open>Inl\<close> the exception).
\<close>

datatype exn =
    WebSocketDisconnect
  | KeyError string
  | IndexError
  | AttributeError
  | InvalidToken
  | OtherError string

text \<open>
  A stored message is the document shown in the endpoint's response example:
  \<^verbatim>\<open>{"from": ..., "to": ..., "message": ..., "time": ...}\<close>. A chat room document has
  the fields \<^verbatim>\<open>members\<close> and \<^verbatim>\<open>messages\<close> that the endpoints read.
\<close>

record message =
  m_from :: string
  m_to :: string
  m_message :: string
  m_time :: int

record chat =
  members :: "string list"
  messages :: "message list"

text \<open>
  The collection \<^verbatim>\<open>chat_rooms\<close> is the list of its documents in the store's natural
  order. The query \<^verbatim>\<open>{'members': {'$all': qs}}\<close> selects the documents whose
  \<^verbatim>\<open>members\<close> array contains every element of \<^verbatim>\<open>qs\<close>; \<^verbatim>\<open>find\<close> yields all of them in
  order, \<^verbatim>\<open>find_one\<close> the first one or \<^verbatim>\<open>None\<close>.
\<close>

fun members_all :: "string list \<Rightarrow> chat \<Rightarrow> bool" where
  "members_all [] c = True"
| "members_all (q # qs) c = (q \<in> set (members c) \<and> members_all qs c)"

definition find_rooms :: "string list \<Rightarrow> chat list \<Rightarrow> chat list" where
  "find_rooms qs db = filter (members_all qs) db"

definition find_one :: "string list \<Rightarrow> chat list \<Rightarrow> chat option" where
  "find_one qs db = List.find (members_all qs) db"

section \<open>The history endpoint \<^verbatim>\<open>get_chat\<close>\<close>

text \<open>
  \<^verbatim>\<open>
  async def get_chat(user2: str, user: str = Depends(get_current_user)):
      cursor = chat_rooms.find_one({'members': {'$all': [user, user2]}})
      if cursor is None:
          return JSONResponse(status_code=200, content=[])
      else:
          data = get_messages_from_chat(cursor)
      return JSONResponse(status_code=200, content=data)
  \<close>
  \<^verbatim>\<open>get_messages_from_chat\<close> comes from \<^verbatim>\<open>utils\<close>, which is not part of the sources;
  it is the parameter \<open>gm\<close>, and it may raise. \<open>user\<close> is the identity that
  \<^verbatim>\<open>get_current_user\<close> resolved for the request.
\<close>

record 'd json_response =
  status_code :: nat
  content :: "'d list"

definition get_chat ::
  "(chat \<Rightarrow> exn + 'd list) \<Rightarrow> chat list \<Rightarrow> string \<Rightarrow> string \<Rightarrow> exn + 'd json_response" where
  "get_chat gm db user2 user =
     (case find_one [user, user2] db of
        None \<Rightarrow> Inr \<lparr>status_code = 200, content = []\<rparr>
      | Some cursor \<Rightarrow>
          (case gm cursor of
             Inl e \<Rightarrow> Inl e
           | Inr data \<Rightarrow> Inr \<lparr>status_code = 200, content = data\<rparr>))"

section \<open>The room-listing endpoint \<^verbatim>\<open>chat_users\<close>\<close>

text \<open>
  \<^verbatim>\<open>
  async def chat_users(user: str = Depends(get_current_user)):
      chats = chat_rooms.find({'members': {'$all': [user]}}, {'_id': 0})
      data = list()
      for chat in chats:
          last_message = chat['messages'][-1]  # last chat message
          if last_message['from'] == user:
              last_message['is_myself'] = True
          else:
              last_message['is_myself'] = False
          del last_message['from'], last_message['to']
          data.append({
              'username': [el for el in chat['members'] if el != user][0],
              'last_message': last_message
          })
      return data
  \<close>
  Both index expressions raise \<^verbatim>\<open>IndexError\<close> on an empty list. After the two
  deletions the last message keeps \<^verbatim>\<open>message\<close>, \<^verbatim>\<open>time\<close> and the new \<^verbatim>\<open>is_myself\<close>.
\<close>

record last_message =
  lm_message :: string
  lm_time :: int
  is_myself :: bool

record chat_user =
  cu_username :: string
  cu_last_message :: last_message

definition index_last :: "'a list \<Rightarrow> exn + 'a" where
  "index_last xs = (case xs of [] \<Rightarrow> Inl IndexError | _ # _ \<Rightarrow> Inr (last xs))"

definition index_first :: "'a list \<Rightarrow> exn + 'a" where
  "index_first xs = (case xs of [] \<Rightarrow> Inl IndexError | x # _ \<Rightarrow> Inr x)"

definition chat_users_body :: "string \<Rightarrow> chat \<Rightarrow> exn + chat_user" where
  "chat_users_body user c =
     (case index_last (messages c) of
        Inl e \<Rightarrow> Inl e
      | Inr lm \<Rightarrow>
          (let flagged = \<lparr>lm_message = m_message lm, lm_time = m_time lm,
                           is_myself = (m_from lm = user)\<rparr>
           in case index_first (filter (\<lambda>el. el \<noteq> user) (members c)) of
                Inl e \<Rightarrow> Inl e
              | Inr el \<Rightarrow> Inr \<lparr>cu_username = el, cu_last_message = flagged\<rparr>))"

fun chat_users_loop :: "string \<Rightarrow> chat list \<Rightarrow> chat_user list \<Rightarrow> exn + chat_user list" where
  "chat_users_loop user [] data = Inr data"
| "chat_users_loop user (c # chats) data =
     (case chat_users_body user c of
        Inl e \<Rightarrow> Inl e
      | Inr entry \<Rightarrow> chat_users_loop user chats (data @ [entry]))"

definition chat_users :: "chat list \<Rightarrow> string \<Rightarrow> exn + chat_user list" where
  "chat_users db user = chat_users_loop user (find_rooms [user] db) []"

section \<open>The websocket handler \<^verbatim>\<open>websocket_endpoint\<close>\<close>

text \<open>
  A websocket is an opaque handle. The handler reads and appends to the list
  \<^verbatim>\<open>manager.authorized_connections\<close>, whose entries are the dictionaries
  \<^verbatim>\<open>{'username': user, 'websocket': websocket}\<close>. The state \<open>world\<close> holds that list,
  the chat room collection, the text frames sent so far with \<^verbatim>\<open>send_text\<close> (the pair of
  the receiving websocket and the text, in the order sent), and the registry's list of
  open connections.
\<close>

type_synonym websocket = nat

record auth_entry =
  username :: string
  websocket :: websocket

record world =
  active_connections :: "websocket list"
  authorized_connections :: "auth_entry list"
  chat_rooms :: "chat list"
  outbox :: "(websocket \<times> string) list"

text \<open>
  \<^verbatim>\<open>receive_json\<close> yields the decoded frame; a JSON object is a dictionary, anything
  else has no \<^verbatim>\<open>keys\<close> method.
\<close>

datatype payload = Dict "string \<rightharpoonup> string" | NotDict

text \<open>
  \<^verbatim>\<open>decode_token\<close> (module \<^verbatim>\<open>deps\<close>) and the methods \<^verbatim>\<open>connect\<close>, \<^verbatim>\<open>disconnect\<close> and
  \<^verbatim>\<open>send_personal_message\<close> of \<^verbatim>\<open>manager\<close> (module \<^verbatim>\<open>socket_manager\<close>) are not part of the
  sources. The handler takes them as parameters: \<^verbatim>\<open>decode_token\<close> returns the identity or
  raises, \<^verbatim>\<open>send_personal_message\<close> returns the new state and the exception it raised, if
  any.
\<close>

record collaborators =
  decode_token :: "string \<Rightarrow> exn + string"
  connect :: "websocket \<Rightarrow> world \<Rightarrow> world"
  disconnect :: "websocket \<Rightarrow> world \<Rightarrow> world"
  send_personal_message :: "string \<Rightarrow> string \<Rightarrow> string \<Rightarrow> world \<Rightarrow> exn option \<times> world"

text \<open>
  \<^verbatim>\<open>websocket.send_text\<close> hands the text to the connection; the text is recorded
  in \<open>outbox\<close>.
\<close>

definition send_text :: "websocket \<Rightarrow> string \<Rightarrow> world \<Rightarrow> world" where
  "send_text ws text w = w\<lparr>outbox := outbox w @ [(ws, text)]\<rparr>"

text \<open>\<^verbatim>\<open>any(d['websocket'] == websocket for d in manager.authorized_connections)\<close>\<close>

definition any_authorized :: "websocket \<Rightarrow> world \<Rightarrow> bool" where
  "any_authorized ws w = list_ex (\<lambda>d. websocket d = ws) (authorized_connections w)"

text \<open>
  The body of the \<^verbatim>\<open>while True\<close> loop, after \<^verbatim>\<open>receive_json\<close> has returned \<open>data\<close>:
  \<^verbatim>\<open>
  if 'token' in data.keys():
      user = await decode_token(data['token'])
      manager.authorized_connections.append({'username': user, 'websocket': websocket})
      await websocket.send_text("successful authorization")
  else:
      if not any(d['websocket'] == websocket for d in manager.authorized_connections):
          await websocket.send_text('websocket not authorized')
      else:
          receiver = data['receiver']
          sender = data['sender']
          message = data['message']
          await manager.send_personal_message(receiver, sender, message)
  \<close>
  The result is the exception raised in the body, if any, and the state reached.
\<close>

definition handle_frame ::
  "collaborators \<Rightarrow> websocket \<Rightarrow> payload \<Rightarrow> world \<Rightarrow> exn option \<times> world" where
  "handle_frame env ws data w =
     (case data of
        NotDict \<Rightarrow> (Some AttributeError, w)
      | Dict d \<Rightarrow>
          (case d ''token'' of
             Some tok \<Rightarrow>
               (case decode_token env tok of
                  Inl e \<Rightarrow> (Some e, w)
                | Inr user \<Rightarrow>
                    (None, send_text ws ''successful authorization''
                       (w\<lparr>authorized_connections :=
                            authorized_connections w @ [\<lparr>username = user, websocket = ws\<rparr>]\<rparr>)))
           | None \<Rightarrow>
               if \<not> any_authorized ws w
               then (None, send_text ws ''websocket not authorized'' w)
               else
                 (case d ''receiver'' of
                    None \<Rightarrow> (Some (KeyError ''receiver''), w)
                  | Some receiver \<Rightarrow>
                      (case d ''sender'' of
                         None \<Rightarrow> (Some (KeyError ''sender''), w)
                       | Some sender \<Rightarrow>
                           (case d ''message'' of
                              None \<Rightarrow> (Some (KeyError ''message''), w)
                            | Some message \<Rightarrow>
                                send_personal_message env receiver sender message w)))))"

text \<open>
  The handler:
  \<^verbatim>\<open>
  await manager.connect(websocket)
  try:
      while True:
          data = await websocket.receive_json()
          ...
  except WebSocketDisconnect:
      manager.disconnect(websocket)
  \<close>
  The input is what the successive calls of \<^verbatim>\<open>receive_json\<close> do: return a frame
  (\<open>Inr\<close>) or raise (\<open>Inl\<close>). The handler ends in one of three ways: it is suspended in
  \<^verbatim>\<open>receive_json\<close> once the input so far is consumed, it returns after the
  \<^verbatim>\<open>except\<close> clause has run, or an exception other than \<^verbatim>\<open>WebSocketDisconnect\<close>
  leaves the function.
\<close>

datatype outcome = Waiting world | Returned world | Raised exn world

definition on_exception :: "collaborators \<Rightarrow> websocket \<Rightarrow> exn \<Rightarrow> world \<Rightarrow> outcome" where
  "on_exception env ws e w =
     (if e = WebSocketDisconnect then Returned (disconnect env ws w) else Raised e w)"

fun receive_loop ::
  "collaborators \<Rightarrow> websocket \<Rightarrow> (exn + payload) list \<Rightarrow> world \<Rightarrow> outcome" where
  "receive_loop env ws [] w = Waiting w"
| "receive_loop env ws (Inl e # frames) w = on_exception env ws e w"
| "receive_loop env ws (Inr data # frames) w =
     (case handle_frame env ws data w of
        (None, w') \<Rightarrow> receive_loop env ws frames w'
      | (Some e, w') \<Rightarrow> on_exception env ws e w')"

definition websocket_endpoint ::
  "collaborators \<Rightarrow> websocket \<Rightarrow> (exn + payload) list \<Rightarrow> world \<Rightarrow> outcome" where
  "websocket_endpoint env ws frames w = receive_loop env ws frames (connect env ws w)"

section \<open>The connection registry and the message router\<close>

text \<open>
  Modelled from the spec: \<^verbatim>\<open>ConnectionManager.connect\<close> (module \<^verbatim>\<open>socket_manager\<close>) is
  not part of the sources. Section 4.1, \<^verbatim>\<open>register(handle)\<close>: adds the handle in the
  unauthenticated state.
\<close>

definition registry_register :: "websocket \<Rightarrow> world \<Rightarrow> world" where
  "registry_register ws w = w\<lparr>active_connections := active_connections w @ [ws]\<rparr>"

text \<open>
  Modelled from the spec: \<^verbatim>\<open>ConnectionManager.disconnect\<close> (module \<^verbatim>\<open>socket_manager\<close>) is
  not part of the sources. Section 4.1, \<^verbatim>\<open>remove(handle)\<close>: deletes all registry state
  for the handle; safe on a handle with no authorization entry.
\<close>

definition registry_remove :: "websocket \<Rightarrow> world \<Rightarrow> world" where
  "registry_remove ws w =
     w\<lparr>active_connections := removeAll ws (active_connections w),
       authorized_connections := filter (\<lambda>d. websocket d \<noteq> ws) (authorized_connections w)\<rparr>"

text \<open>
  Modelled from the spec: the lookup of the receiver's connection inside
  \<^verbatim>\<open>ConnectionManager.send_personal_message\<close> is not part of the sources. Section 4.1,
  \<^verbatim>\<open>find_live_connection(identity)\<close>: some handle currently authorized as the identity
  or none; among several, the most recently authorized one (the policy the spec names
  as its example).
\<close>

definition find_live_connection :: "string \<Rightarrow> world \<Rightarrow> websocket option" where
  "find_live_connection identity w =
     (case filter (\<lambda>d. username d = identity) (authorized_connections w) of
        [] \<Rightarrow> None
      | d # ds \<Rightarrow> Some (websocket (last (d # ds))))"

text \<open>
  Modelled from the spec: \<^verbatim>\<open>create_chat\<close> and the store update (module \<^verbatim>\<open>db\<close>) are not
  part of the sources. Section 4.3, step 3: look up or create the chat room for
  \<open>{sender, receiver}\<close> and append the message. The room is the first one whose members
  contain both identities (the lookup of section 4.4); a new room is added at the end.
\<close>

fun store_message :: "string \<Rightarrow> string \<Rightarrow> message \<Rightarrow> chat list \<Rightarrow> chat list" where
  "store_message a b m [] = [\<lparr>members = [a, b], messages = [m]\<rparr>]"
| "store_message a b m (c # cs) =
     (if members_all [a, b] c then c\<lparr>messages := messages c @ [m]\<rparr> # cs
      else c # store_message a b m cs)"

text \<open>
  Modelled from the spec: \<^verbatim>\<open>ConnectionManager.send_personal_message\<close> (module
  \<^verbatim>\<open>socket_manager\<close>) is not part of the sources. Section 4.3, \<^verbatim>\<open>route(sender, receiver,
  text)\<close>, its steps in order: (1) look up the receiver's live connection; (2) if found,
  deliver the text to it; (3) regardless of the delivery outcome, look up or create the
  room and append the message with the current time. Step 3 is the behaviour that
  section 9 reports of the original ("always re-persists a message to the room store even
  when live delivery succeeds") and that the first scenario of section 8 needs. Step 2
  of the same section also says that a delivered message is not stored as well, which
  contradicts step 3; the method is not in the sources, so which of the two the program
  does is left open. This router follows step 3. It is one concrete router on which the
  handler is evaluated in the examples; the theorems about the handler hold for every
  router. \<open>now\<close> is the clock reading.
\<close>

definition route :: "int \<Rightarrow> string \<Rightarrow> string \<Rightarrow> string \<Rightarrow> world \<Rightarrow> exn option \<times> world" where
  "route now receiver sender text w =
     (let w1 = (case find_live_connection receiver w of
                  Some h \<Rightarrow> send_text h text w
                | None \<Rightarrow> w);
          msg = \<lparr>m_from = sender, m_to = receiver, m_message = text, m_time = now\<rparr>
      in (None, w1\<lparr>chat_rooms := store_message sender receiver msg (chat_rooms w1)\<rparr>))"

definition spec_manager :: "int \<Rightarrow> (string \<Rightarrow> exn + string) \<Rightarrow> collaborators" where
  "spec_manager now dt =
     \<lparr>decode_token = dt, connect = registry_register, disconnect = registry_remove,
      send_personal_message = route now\<rparr>"

section \<open>Example store and connections\<close>

definition example_decode :: "string \<Rightarrow> exn + string" where
  "example_decode tok =
     (if tok = ''A'' then Inr ''alice''
      else if tok = ''B'' then Inr ''bob''
      else if tok = ''M'' then Inr ''mallory''
      else Inl InvalidToken)"

definition example_env :: collaborators where
  "example_env = spec_manager 7 example_decode"

definition empty_world :: world where
  "empty_world = \<lparr>active_connections = [], authorized_connections = [], chat_rooms = [], outbox = []\<rparr>"

definition bob_online :: world where
  "bob_online =
     \<lparr>active_connections = [2], authorized_connections = [\<lparr>username = ''bob'', websocket = 2\<rparr>],
      chat_rooms = [], outbox = []\<rparr>"

definition example_rooms :: "chat list" where
  "example_rooms =
     [\<lparr>members = [''alice'', ''bob''],
       messages = [\<lparr>m_from = ''alice'', m_to = ''bob'', m_message = ''hi'', m_time = 1\<rparr>,
                   \<lparr>m_from = ''bob'', m_to = ''alice'', m_message = ''yo'', m_time = 2\<rparr>]\<rparr>,
      \<lparr>members = [''carol'', ''alice''],
       messages = [\<lparr>m_from = ''alice'', m_to = ''carol'', m_message = ''hey'', m_time = 3\<rparr>]\<rparr>]"

definition empty_room_store :: "chat list" where
  "empty_room_store = example_rooms @ [\<lparr>members = [''alice'', ''zed''], messages = []\<rparr>]"

definition mallory_online :: world where
  "mallory_online =
     \<lparr>active_connections = [2, 1],
      authorized_connections =
        [\<lparr>username = ''bob'', websocket = 2\<rparr>, \<lparr>username = ''mallory'', websocket = 1\<rparr>],
      chat_rooms = [], outbox = []\<rparr>"

section \<open>Room lookup\<close>

lemma members_all_pair:
  "members_all [a, b] c = members_all [b, a] c"
  by auto

text \<open>
  C7. Looking up the room of two identities does not depend on the order of the two
  arguments: the \<^verbatim>\<open>$all\<close> query of \<^verbatim>\<open>get_chat\<close> selects the same document for
  \<open>(A, B)\<close> and for \<open>(B, A)\<close>, and so the endpoint answers both requests alike.
\<close>

theorem get_chat_lookup_commutes:
  "find_one [a, b] db = find_one [b, a] db \<and> get_chat gm db a b = get_chat gm db b a"
proof -
  have "members_all [a, b] = members_all [b, a]"
    by (rule ext) (rule members_all_pair)
  then have "find_one [a, b] db = find_one [b, a] db"
    by (simp only: find_one_def)
  then show ?thesis
    by (simp add: get_chat_def)
qed

theorem get_chat_lookup_commutes_witness:
  "find_one [''alice'', ''carol''] example_rooms = find_one [''carol'', ''alice''] example_rooms
   \<and> find_one [''carol'', ''alice''] example_rooms
       = Some \<lparr>members = [''carol'', ''alice''],
               messages = [\<lparr>m_from = ''alice'', m_to = ''carol'', m_message = ''hey'', m_time = 3\<rparr>]\<rparr>"
  using get_chat_lookup_commutes [of "''alice''" "''carol''" example_rooms]
  by (simp add: find_one_def example_rooms_def)

text \<open>
  C9. When no stored room has both the requester and \<open>user2\<close> among its members, the
  history endpoint does not fail: it answers with status 200 and the empty list.
\<close>

theorem get_chat_no_room:
  assumes "\<not> (\<exists>c \<in> set db. user \<in> set (members c) \<and> user2 \<in> set (members c))"
  shows "get_chat gm db user2 user = Inr \<lparr>status_code = 200, content = []\<rparr>"
proof -
  have "\<not> (\<exists>c \<in> set db. members_all [user, user2] c)"
    using assms by simp
  then have "find_one [user, user2] db = None"
    by (simp add: find_one_def find_None_iff)
  then show ?thesis
    by (simp add: get_chat_def)
qed

theorem get_chat_no_room_witness:
  "\<not> (\<exists>c \<in> set example_rooms. ''alice'' \<in> set (members c) \<and> ''dave'' \<in> set (members c))
   \<and> get_chat (\<lambda>c. Inr (messages c)) example_rooms ''dave'' ''alice''
       = Inr \<lparr>status_code = 200, content = []\<rparr>"
proof -
  have h: "\<not> (\<exists>c \<in> set example_rooms. ''alice'' \<in> set (members c) \<and> ''dave'' \<in> set (members c))"
    by (simp add: example_rooms_def)
  show ?thesis
    using h get_chat_no_room [OF h, of "\<lambda>c. Inr (messages c)"] by simp
qed

section \<open>Room listing\<close>

lemma chat_users_body_ok:
  assumes "messages c \<noteq> []" and "\<exists>el \<in> set (members c). el \<noteq> user"
  shows "chat_users_body user c =
           Inr \<lparr>cu_username = hd (filter (\<lambda>el. el \<noteq> user) (members c)),
                cu_last_message =
                  \<lparr>lm_message = m_message (last (messages c)),
                   lm_time = m_time (last (messages c)),
                   is_myself = (m_from (last (messages c)) = user)\<rparr>\<rparr>"
proof -
  from assms(2) have "filter (\<lambda>el. el \<noteq> user) (members c) \<noteq> []"
    by (simp add: filter_empty_conv)
  with assms(1) show ?thesis
    by (auto simp: chat_users_body_def index_last_def index_first_def split: list.splits)
qed

lemma chat_users_body_empty:
  "messages c = [] \<Longrightarrow> chat_users_body user c = Inl IndexError"
  by (simp add: chat_users_body_def index_last_def)

lemma chat_users_body_error:
  "chat_users_body user c = Inl e \<Longrightarrow> e = IndexError"
  by (auto simp: chat_users_body_def index_last_def index_first_def Let_def
           split: list.splits sum.splits)

lemma chat_users_body_alone:
  "\<forall>el \<in> set (members c). el = user \<Longrightarrow> chat_users_body user c = Inl IndexError"
proof -
  assume "\<forall>el \<in> set (members c). el = user"
  then have "filter (\<lambda>el. el \<noteq> user) (members c) = []"
    by (simp add: filter_empty_conv)
  then show ?thesis
    by (simp add: chat_users_body_def index_last_def index_first_def split: list.splits)
qed

lemma chat_users_loop_ok:
  assumes "\<forall>c \<in> set chats. messages c \<noteq> [] \<and> (\<exists>el \<in> set (members c). el \<noteq> user)"
  shows "chat_users_loop user chats data =
           Inr (data @ map (\<lambda>c. \<lparr>cu_username = hd (filter (\<lambda>el. el \<noteq> user) (members c)),
                cu_last_message =
                  \<lparr>lm_message = m_message (last (messages c)),
                   lm_time = m_time (last (messages c)),
                   is_myself = (m_from (last (messages c)) = user)\<rparr>\<rparr>) chats)"
  using assms
proof (induction chats arbitrary: data)
  case Nil
  then show ?case by simp
next
  case (Cons c chats)
  then have "messages c \<noteq> []" and "\<exists>el \<in> set (members c). el \<noteq> user"
    by simp_all
  then show ?case
    using Cons by (simp add: chat_users_body_ok)
qed

lemma chat_users_loop_fail:
  assumes "\<exists>c \<in> set chats. messages c = [] \<or> (\<forall>el \<in> set (members c). el = user)"
  shows "chat_users_loop user chats data = Inl IndexError"
  using assms
proof (induction chats arbitrary: data)
  case Nil
  then show ?case by simp
next
  case (Cons c chats)
  show ?case
  proof (cases "chat_users_body user c")
    case (Inl e)
    then show ?thesis
      using chat_users_body_error [OF Inl] by simp
  next
    case (Inr entry)
    then have "\<not> (messages c = [] \<or> (\<forall>el \<in> set (members c). el = user))"
      using chat_users_body_empty [of c user] chat_users_body_alone [of c user] by auto
    with Cons.prems have "\<exists>c \<in> set chats. messages c = [] \<or> (\<forall>el \<in> set (members c). el = user)"
      by auto
    then show ?thesis
      using Inr Cons.IH by simp
  qed
qed

lemma set_find_rooms_single:
  "set (find_rooms [user] db) = {c \<in> set db. user \<in> set (members c)}"
  by (auto simp: find_rooms_def)

lemma find_rooms_single:
  "find_rooms [user] db = filter (\<lambda>c. user \<in> set (members c)) db"
  by (simp add: find_rooms_def cong: filter_cong)

text \<open>
  C8. For every room that has the requester among its members, the room-listing
  endpoint returns one entry, in the order of the store: the counterpart (the first
  member that is not the requester), and the room's last message with the flag
  \<open>is_myself\<close>, true exactly when the requester wrote that message. The rooms are
  assumed to hold a message and a member other than the requester.
\<close>

theorem chat_users_lists_counterpart_and_last_message:
  assumes "\<forall>c \<in> set db. user \<in> set (members c) \<longrightarrow>
             messages c \<noteq> [] \<and> (\<exists>el \<in> set (members c). el \<noteq> user)"
  shows "chat_users db user =
           Inr (map (\<lambda>c. \<lparr>cu_username = hd (filter (\<lambda>el. el \<noteq> user) (members c)),
                          cu_last_message =
                            \<lparr>lm_message = m_message (last (messages c)),
                             lm_time = m_time (last (messages c)),
                             is_myself = (m_from (last (messages c)) = user)\<rparr>\<rparr>)
                    (filter (\<lambda>c. user \<in> set (members c)) db))"
proof -
  have "\<forall>c \<in> set (find_rooms [user] db).
          messages c \<noteq> [] \<and> (\<exists>el \<in> set (members c). el \<noteq> user)"
    using assms by (simp add: set_find_rooms_single)
  from chat_users_loop_ok [OF this, of "[]"] show ?thesis
    by (simp add: chat_users_def find_rooms_single)
qed

theorem chat_users_lists_counterpart_and_last_message_witness:
  "chat_users example_rooms ''alice'' =
       Inr [\<lparr>cu_username = ''bob'',
             cu_last_message = \<lparr>lm_message = ''yo'', lm_time = 2, is_myself = False\<rparr>\<rparr>,
            \<lparr>cu_username = ''carol'',
             cu_last_message = \<lparr>lm_message = ''hey'', lm_time = 3, is_myself = True\<rparr>\<rparr>]"
proof -
  have h: "\<forall>c \<in> set example_rooms. ''alice'' \<in> set (members c) \<longrightarrow>
             messages c \<noteq> [] \<and> (\<exists>el \<in> set (members c). el \<noteq> ''alice'')"
    by (simp add: example_rooms_def)
  show ?thesis
    using chat_users_lists_counterpart_and_last_message [OF h]
    by (simp add: example_rooms_def)
qed

text \<open>
  C10. The endpoint indexes the last message of every room it reads with no emptiness
  check. For rooms that have a counterpart, it returns a list exactly when every room
  with the requester among its members holds at least one message; one such room with
  no message makes the request fail with \<^verbatim>\<open>IndexError\<close>.
\<close>

theorem chat_users_safe_iff_rooms_nonempty:
  assumes "\<forall>c \<in> set db. user \<in> set (members c) \<longrightarrow> (\<exists>el \<in> set (members c). el \<noteq> user)"
  shows "((\<exists>data. chat_users db user = Inr data) \<longleftrightarrow>
            (\<forall>c \<in> set db. user \<in> set (members c) \<longrightarrow> messages c \<noteq> []))
         \<and> ((\<exists>c \<in> set db. user \<in> set (members c) \<and> messages c = []) \<longrightarrow>
              chat_users db user = Inl IndexError)"
proof -
  have fail: "chat_users db user = Inl IndexError"
    if "\<exists>c \<in> set db. user \<in> set (members c) \<and> messages c = []"
  proof -
    from that have "\<exists>c \<in> set (find_rooms [user] db).
        messages c = [] \<or> (\<forall>el \<in> set (members c). el = user)"
      by (auto simp: set_find_rooms_single)
    from chat_users_loop_fail [OF this] show ?thesis
      by (simp add: chat_users_def)
  qed
  have ok: "\<exists>data. chat_users db user = Inr data"
    if "\<forall>c \<in> set db. user \<in> set (members c) \<longrightarrow> messages c \<noteq> []"
  proof -
    from that assms have "\<forall>c \<in> set (find_rooms [user] db).
          messages c \<noteq> [] \<and> (\<exists>el \<in> set (members c). el \<noteq> user)"
      by (simp add: set_find_rooms_single)
    from chat_users_loop_ok [OF this, of "[]"] show ?thesis
      by (simp add: chat_users_def)
  qed
  have "(\<exists>data. chat_users db user = Inr data) \<longleftrightarrow>
          (\<forall>c \<in> set db. user \<in> set (members c) \<longrightarrow> messages c \<noteq> [])"
  proof
    assume "\<exists>data. chat_users db user = Inr data"
    then obtain data where d: "chat_users db user = Inr data" ..
    show "\<forall>c \<in> set db. user \<in> set (members c) \<longrightarrow> messages c \<noteq> []"
    proof (rule ccontr)
      assume "\<not> (\<forall>c \<in> set db. user \<in> set (members c) \<longrightarrow> messages c \<noteq> [])"
      then have "\<exists>c \<in> set db. user \<in> set (members c) \<and> messages c = []"
        by blast
      from fail [OF this] d show False
        by simp
    qed
  next
    assume "\<forall>c \<in> set db. user \<in> set (members c) \<longrightarrow> messages c \<noteq> []"
    then show "\<exists>data. chat_users db user = Inr data"
      by (rule ok)
  qed
  moreover have "(\<exists>c \<in> set db. user \<in> set (members c) \<and> messages c = []) \<longrightarrow>
              chat_users db user = Inl IndexError"
    using fail by blast
  ultimately show ?thesis
    by (rule conjI)
qed

theorem chat_users_safe_iff_rooms_nonempty_witness:
  "(\<exists>c \<in> set empty_room_store. ''alice'' \<in> set (members c) \<and> messages c = [])
   \<and> chat_users empty_room_store ''alice'' = Inl IndexError
   \<and> \<not> (\<exists>c \<in> set example_rooms. ''alice'' \<in> set (members c) \<and> messages c = [])
   \<and> (\<exists>data. chat_users example_rooms ''alice'' = Inr data)"
proof -
  have h1: "\<forall>c \<in> set empty_room_store. ''alice'' \<in> set (members c) \<longrightarrow> (\<exists>el \<in> set (members c). el \<noteq> ''alice'')"
    by (simp add: empty_room_store_def example_rooms_def)
  have h2: "\<forall>c \<in> set example_rooms. ''alice'' \<in> set (members c) \<longrightarrow> (\<exists>el \<in> set (members c). el \<noteq> ''alice'')"
    by (simp add: example_rooms_def)
  have e: "\<exists>c \<in> set empty_room_store. ''alice'' \<in> set (members c) \<and> messages c = []"
    by (simp add: empty_room_store_def example_rooms_def)
  have n: "\<forall>c \<in> set example_rooms. ''alice'' \<in> set (members c) \<longrightarrow> messages c \<noteq> []"
    by (simp add: example_rooms_def)
  show ?thesis
    using e n chat_users_safe_iff_rooms_nonempty [OF h1] chat_users_safe_iff_rooms_nonempty [OF h2]
    by blast
qed

section \<open>The websocket handler: frames\<close>

lemma any_authorized_send_text [simp]:
  "any_authorized ws (send_text h text w) = any_authorized ws w"
  by (simp add: any_authorized_def send_text_def)

lemma handle_frame_unauthorized:
  assumes "\<not> any_authorized ws w" and "d ''token'' = None"
  shows "handle_frame env ws (Dict d) w = (None, send_text ws ''websocket not authorized'' w)"
  using assms by (simp add: handle_frame_def)

lemma any_authorized_outbox [simp]:
  "any_authorized ws (w\<lparr>outbox := ob\<rparr>) = any_authorized ws w"
  by (simp add: any_authorized_def)

text \<open>
  C2. While the connection has no entry in \<^verbatim>\<open>authorized_connections\<close>, every frame
  without a \<^verbatim>\<open>token\<close> field is answered with the notice \<^verbatim>\<open>websocket not authorized\<close>
  on the same connection and changes nothing else: the registry and the chat rooms stay
  as they are, and the result does not depend on \<^verbatim>\<open>send_personal_message\<close>, which is
  never called. This holds for every run of such frames before the first token frame,
  whatever the frames contain.
\<close>

theorem unauthorized_frames_only_get_notice:
  assumes "\<not> any_authorized ws w"
    and "\<forall>f \<in> set pre. \<exists>d. f = Inr (Dict d) \<and> d ''token'' = None"
  shows "receive_loop env ws (pre @ rest) w =
           receive_loop env ws rest
             (w\<lparr>outbox := outbox w @ map (\<lambda>f. (ws, ''websocket not authorized'')) pre\<rparr>)"
  using assms
proof (induction pre arbitrary: w)
  case Nil
  then show ?case by simp
next
  case (Cons f pre)
  from Cons.prems(2) obtain d where f: "f = Inr (Dict d)" and d: "d ''token'' = None"
    by auto
  let ?w1 = "send_text ws ''websocket not authorized'' w"
  have step: "handle_frame env ws (Dict d) w = (None, ?w1)"
    using Cons.prems(1) d by (rule handle_frame_unauthorized)
  have "\<not> any_authorized ws ?w1"
    using Cons.prems(1) by simp
  moreover have "\<forall>f \<in> set pre. \<exists>d. f = Inr (Dict d) \<and> d ''token'' = None"
    using Cons.prems(2) by simp
  ultimately have "receive_loop env ws (pre @ rest) ?w1 =
      receive_loop env ws rest
        (?w1\<lparr>outbox := outbox ?w1 @ map (\<lambda>f. (ws, ''websocket not authorized'')) pre\<rparr>)"
    by (rule Cons.IH)
  then show ?case
    using step f by (simp add: send_text_def)
qed

lemmas example_defs =
  example_env_def spec_manager_def example_decode_def registry_register_def registry_remove_def
  route_def find_live_connection_def send_text_def any_authorized_def handle_frame_def
  on_exception_def websocket_endpoint_def

theorem unauthorized_frames_only_get_notice_witness:
  "\<not> any_authorized 1 bob_online
   \<and> receive_loop example_env 1
       [Inr (Dict [''sender'' \<mapsto> ''alice'', ''receiver'' \<mapsto> ''bob'', ''message'' \<mapsto> ''hi'']),
        Inr (Dict [''receiver'' \<mapsto> ''bob''])] bob_online
     = Waiting (bob_online\<lparr>outbox :=
          [(1, ''websocket not authorized''), (1, ''websocket not authorized'')]\<rparr>)"
proof -
  let ?pre = "[Inr (Dict [''sender'' \<mapsto> ''alice'', ''receiver'' \<mapsto> ''bob'', ''message'' \<mapsto> ''hi'']),
        Inr (Dict [''receiver'' \<mapsto> ''bob''])]"
  have h1: "\<not> any_authorized 1 bob_online"
    by (simp add: any_authorized_def bob_online_def)
  have h2: "\<forall>f \<in> set ?pre. \<exists>d. f = Inr (Dict d) \<and> d ''token'' = None"
    by simp
  show ?thesis
    using h1 unauthorized_frames_only_get_notice [OF h1 h2, of example_env "[]"]
    by (simp add: bob_online_def)
qed

subsection \<open>The claimed sender\<close>

text \<open>
  C1, as stated, fails. The connection 1 authenticates as \<open>mallory\<close> and then sends a
  frame whose \<^verbatim>\<open>sender\<close> is \<open>alice\<close>. The handler raises nothing and sends no notice:
  the router delivers the text to bob's connection 2 and stores the message as written
  by \<open>alice\<close>.
\<close>

theorem spoofed_sender_counterexample:
  "websocket_endpoint example_env 1
     [Inr (Dict [''token'' \<mapsto> ''M'']),
      Inr (Dict [''sender'' \<mapsto> ''alice'', ''receiver'' \<mapsto> ''bob'', ''message'' \<mapsto> ''hi''])]
     bob_online
   = Waiting
       \<lparr>active_connections = [2, 1],
        authorized_connections =
          [\<lparr>username = ''bob'', websocket = 2\<rparr>, \<lparr>username = ''mallory'', websocket = 1\<rparr>],
        chat_rooms =
          [\<lparr>members = [''alice'', ''bob''],
            messages = [\<lparr>m_from = ''alice'', m_to = ''bob'', m_message = ''hi'', m_time = 7\<rparr>]\<rparr>],
        outbox = [(1, ''successful authorization''), (2, ''hi'')]\<rparr>"
  by (simp add: example_defs bob_online_def)

text \<open>
  C1, amended. On a connection that is authorized, as whatever identity \<open>u\<close>, a frame
  without a token that has the three fields is handed to \<^verbatim>\<open>send_personal_message\<close> with
  the \<^verbatim>\<open>sender\<close> the client wrote; the handler does not compare it with \<open>u\<close>.
\<close>

theorem send_frame_forwards_claimed_sender:
  assumes "\<lparr>username = u, websocket = ws\<rparr> \<in> set (authorized_connections w)"
    and "d ''token'' = None"
    and "d ''receiver'' = Some receiver"
    and "d ''sender'' = Some sender"
    and "d ''message'' = Some text"
  shows "handle_frame env ws (Dict d) w = send_personal_message env receiver sender text w"
proof -
  from assms(1) have "any_authorized ws w"
    by (force simp: any_authorized_def list_ex_iff)
  with assms(2-5) show ?thesis
    by (simp add: handle_frame_def)
qed

theorem send_frame_forwards_claimed_sender_witness:
  "\<lparr>username = ''mallory'', websocket = 1\<rparr> \<in> set (authorized_connections mallory_online)
   \<and> ''mallory'' \<noteq> ''alice''
   \<and> handle_frame example_env 1
       (Dict [''sender'' \<mapsto> ''alice'', ''receiver'' \<mapsto> ''bob'', ''message'' \<mapsto> ''hi''])
       mallory_online
     = route 7 ''bob'' ''alice'' ''hi'' mallory_online"
proof -
  let ?d = "[''sender'' \<mapsto> ''alice'', ''receiver'' \<mapsto> ''bob'', ''message'' \<mapsto> ''hi'']"
  have h1: "\<lparr>username = ''mallory'', websocket = 1\<rparr> \<in> set (authorized_connections mallory_online)"
    by (simp add: mallory_online_def)
  have h2: "?d ''token'' = None" by simp
  have h3: "?d ''receiver'' = Some ''bob''" by simp
  have h4: "?d ''sender'' = Some ''alice''" by simp
  have h5: "?d ''message'' = Some ''hi''" by simp
  have r: "handle_frame example_env 1 (Dict ?d) mallory_online
             = send_personal_message example_env ''bob'' ''alice'' ''hi'' mallory_online"
    using h1 h2 h3 h4 h5
    by (rule send_frame_forwards_claimed_sender
          [where d = "?d" and u = "''mallory''" and ws = 1 and w = mallory_online])
  have e: "send_personal_message example_env = route 7"
    by (simp add: example_env_def spec_manager_def)
  have n: "''mallory'' \<noteq> ''alice''" by simp
  from r have "handle_frame example_env 1 (Dict ?d) mallory_online
             = route 7 ''bob'' ''alice'' ''hi'' mallory_online"
    by (simp only: e)
  with h1 n show ?thesis
    by (intro conjI)
qed

subsection \<open>Rejected tokens\<close>

text \<open>
  C3, as stated, fails. The token \<open>expired\<close> is rejected by \<^verbatim>\<open>decode_token\<close>. The
  exception leaves the handler: no notice is sent (the outbox stays empty) and the valid
  token that follows on the same connection is never read.
\<close>

theorem rejected_token_counterexample:
  "websocket_endpoint example_env 1
     [Inr (Dict [''token'' \<mapsto> ''expired'']), Inr (Dict [''token'' \<mapsto> ''A''])] empty_world
   = Raised InvalidToken
       \<lparr>active_connections = [1], authorized_connections = [], chat_rooms = [], outbox = []\<rparr>"
  by (simp add: example_defs empty_world_def)

text \<open>
  C3, amended. A token frame whose token \<^verbatim>\<open>decode_token\<close> rejects by raising leaves
  the state, and so the authentication state of the connection, unchanged; no notice is
  sent, and the exception ends the handler, whatever frames follow. (Were the exception
  \<^verbatim>\<open>WebSocketDisconnect\<close>, the \<^verbatim>\<open>except\<close> clause would run instead.)
\<close>

theorem rejected_token_ends_handler:
  assumes "d ''token'' = Some tok" and "decode_token env tok = Inl e"
  shows "receive_loop env ws (Inr (Dict d) # rest) w =
           (if e = WebSocketDisconnect then Returned (disconnect env ws w) else Raised e w)"
  using assms by (simp add: handle_frame_def on_exception_def)

theorem rejected_token_ends_handler_witness:
  "[''token'' \<mapsto> ''expired''] ''token'' = Some ''expired''
   \<and> decode_token example_env ''expired'' = Inl InvalidToken
   \<and> receive_loop example_env 1
        [Inr (Dict [''token'' \<mapsto> ''expired'']), Inr (Dict [''token'' \<mapsto> ''A''])] empty_world
      = Raised InvalidToken empty_world"
proof -
  have h1: "[''token'' \<mapsto> ''expired''] ''token'' = Some ''expired''" by simp
  have h2: "decode_token example_env ''expired'' = Inl InvalidToken"
    by (simp add: example_env_def spec_manager_def example_decode_def)
  have "receive_loop example_env 1
        [Inr (Dict [''token'' \<mapsto> ''expired'']), Inr (Dict [''token'' \<mapsto> ''A''])] empty_world
      = (if InvalidToken = WebSocketDisconnect then Returned (disconnect example_env 1 empty_world)
         else Raised InvalidToken empty_world)"
    using h1 h2
    by (rule rejected_token_ends_handler
          [where d = "[''token'' \<mapsto> ''expired'']" and tok = "''expired''"])
  then have "receive_loop example_env 1
        [Inr (Dict [''token'' \<mapsto> ''expired'']), Inr (Dict [''token'' \<mapsto> ''A''])] empty_world
      = Raised InvalidToken empty_world"
    by (simp only: exn.distinct if_False)
  with h1 h2 show ?thesis
    by (intro conjI)
qed

subsection \<open>Exit paths and cleanup\<close>













subsection \<open>Repeated authorization\<close>

text \<open>
  C6, as stated, fails. Two token frames on connection 1 leave two entries for that
  connection in \<^verbatim>\<open>authorized_connections\<close>.
\<close>

theorem reauthorization_counterexample:
  "websocket_endpoint example_env 1
     [Inr (Dict [''token'' \<mapsto> ''A'']), Inr (Dict [''token'' \<mapsto> ''A''])] empty_world
   = Waiting
       \<lparr>active_connections = [1],
        authorized_connections =
          [\<lparr>username = ''alice'', websocket = 1\<rparr>, \<lparr>username = ''alice'', websocket = 1\<rparr>],
        chat_rooms = [],
        outbox = [(1, ''successful authorization''), (1, ''successful authorization'')]\<rparr>"
  by (simp add: example_defs empty_world_def)

lemma handle_frame_valid_token:
  assumes "d ''token'' = Some tok" and "decode_token env tok = Inr user"
  shows "handle_frame env ws (Dict d) w =
           (None, send_text ws ''successful authorization''
              (w\<lparr>authorized_connections :=
                   authorized_connections w @ [\<lparr>username = user, websocket = ws\<rparr>]\<rparr>))"
  using assms by (simp add: handle_frame_def)

text \<open>
  C6, amended. Every accepted token frame appends one entry for the connection to
  \<^verbatim>\<open>authorized_connections\<close>: after a sequence of accepted token frames the list is
  the old list, unchanged, followed by one new entry of this connection per frame.
\<close>

theorem token_frames_append_entries:
  assumes "\<forall>f \<in> set frames. \<exists>d tok user.
             f = Inr (Dict d) \<and> d ''token'' = Some tok \<and> decode_token env tok = Inr user"
  shows "\<exists>w' new. receive_loop env ws frames w = Waiting w'
           \<and> authorized_connections w' = authorized_connections w @ new
           \<and> length new = length frames
           \<and> (\<forall>entry \<in> set new. websocket entry = ws)"
  using assms
proof (induction frames arbitrary: w)
  case Nil
  then show ?case by simp
next
  case (Cons f frames)
  from Cons.prems obtain d tok user where f: "f = Inr (Dict d)"
    and d: "d ''token'' = Some tok" and t: "decode_token env tok = Inr user"
    by auto
  let ?entry = "\<lparr>username = user, websocket = ws\<rparr>"
  let ?w1 = "send_text ws ''successful authorization''
               (w\<lparr>authorized_connections := authorized_connections w @ [?entry]\<rparr>)"
  have step: "handle_frame env ws (Dict d) w = (None, ?w1)"
    using d t by (rule handle_frame_valid_token)
  have "\<forall>f \<in> set frames. \<exists>d tok user.
          f = Inr (Dict d) \<and> d ''token'' = Some tok \<and> decode_token env tok = Inr user"
    using Cons.prems by simp
  from Cons.IH [OF this, of ?w1] obtain w' new where
    run: "receive_loop env ws frames ?w1 = Waiting w'"
    and app: "authorized_connections w' = authorized_connections ?w1 @ new"
    and len: "length new = length frames"
    and own: "\<forall>entry \<in> set new. websocket entry = ws"
    by blast
  have "receive_loop env ws (f # frames) w = Waiting w'"
    using f step run by simp
  moreover have "authorized_connections w' = authorized_connections w @ (?entry # new)"
    using app by (simp add: send_text_def)
  moreover have "length (?entry # new) = length (f # frames)"
    using len by simp
  moreover have "\<forall>entry \<in> set (?entry # new). websocket entry = ws"
    using own by simp
  ultimately show ?case
    by blast
qed

theorem token_frames_append_entries_witness:
  "decode_token example_env ''A'' = Inr ''alice''
   \<and> (\<exists>w' new. receive_loop example_env 1
          [Inr (Dict [''token'' \<mapsto> ''A'']), Inr (Dict [''token'' \<mapsto> ''A''])] bob_online = Waiting w'
        \<and> authorized_connections w' = authorized_connections bob_online @ new
        \<and> length new = 2
        \<and> (\<forall>entry \<in> set new. websocket entry = 1))"
proof -
  let ?fs = "[Inr (Dict [''token'' \<mapsto> ''A'']), Inr (Dict [''token'' \<mapsto> ''A''])]"
  have t: "decode_token example_env ''A'' = Inr ''alice''"
    by (simp add: example_env_def spec_manager_def example_decode_def)
  have "\<exists>d tok user. (Inr (Dict [''token'' \<mapsto> ''A'']) :: exn + payload) = Inr (Dict d)
          \<and> d ''token'' = Some tok \<and> decode_token example_env tok = Inr user"
    using t by (intro exI [of _ "[''token'' \<mapsto> ''A'']"] exI [of _ "''A''"] exI [of _ "''alice''"]) simp
  then have h: "\<forall>f \<in> set ?fs. \<exists>d tok user. f = Inr (Dict d) \<and> d ''token'' = Some tok
         \<and> decode_token example_env tok = Inr user"
    by simp
  have l: "length ?fs = 2" by simp
  show ?thesis
    using t token_frames_append_entries [OF h, of 1 bob_online] unfolding l
    by (intro conjI)
qed

end
